theory Spec2Isabelle
  imports Main "HOL-Library.Word" "HOL-Library.Sublist"
begin

section \<open>Binding environment variables to struct fields: the package \<open>env\<close>\<close>

text \<open>
  The package walks a struct by reflection, resolves every field's source string from
  the process environment and the field's tags (\<open>get\<close>), converts it to the field's
  type (\<open>set\<close>, here \<open>set_field\<close>) and collects the per-field error messages
  (\<open>doParse\<close>).  The model below follows the source function by function.  What the
  source takes from Go's standard library (\<open>os.LookupEnv\<close>, \<open>strconv\<close>,
  \<open>time.ParseDuration\<close>) is a parameter of the model; \<open>strings.Split\<close> and
  \<open>strings.Join\<close> are written out.
\<close>

subsection \<open>Errors\<close>

text \<open>
  The four sentinel errors of the package, an error made by \<open>errors.New\<close>, and an error
  value returned by \<open>strconv\<close> or \<open>time\<close> (known by its message only).
\<close>

datatype error =
    ErrNotAStructPtr
  | ErrUnsupportedType
  | ErrMismatchType
  | ErrUnsupportedSliceType
  | errors_New string
  | LibError string

fun Error :: "error \<Rightarrow> string" where
  "Error ErrNotAStructPtr = ''Expected a pointer to a Struct''"
| "Error ErrUnsupportedType = ''Type is not supported''"
| "Error ErrMismatchType = ''Data Type mismatch. Mismatching left and right hand types''"
| "Error ErrUnsupportedSliceType = ''Unsupported slice type''"
| "Error (errors_New s) = s"
| "Error (LibError s) = s"

subsection \<open>The standard library, as a parameter\<close>

text \<open>
  \<open>LookupEnv\<close> is the process environment (\<open>None\<close>: the variable is not set).  The
  parsers return the message of their error (\<open>Inl\<close>) or the parsed value; \<open>ParseInt\<close>
  and \<open>ParseUint\<close> take the string, the base and the bit size, \<open>ParseFloat\<close> the string
  and the bit size.  An \<open>int64\<close>, a \<open>uint64\<close> and a \<open>time.Duration\<close> (nanoseconds) are
  64-bit words; a \<open>float64\<close> is kept as its IEEE 754 bit pattern.
\<close>

type_synonym int64 = "64 word"
type_synonym uint64 = "64 word"
type_synonym float64 = "64 word"

record golib =
  LookupEnv :: "string \<Rightarrow> string option"
  ParseBool :: "string \<Rightarrow> string + bool"
  ParseInt :: "string \<Rightarrow> nat \<Rightarrow> nat \<Rightarrow> string + int64"
  ParseUint :: "string \<Rightarrow> nat \<Rightarrow> nat \<Rightarrow> string + uint64"
  ParseFloat :: "string \<Rightarrow> nat \<Rightarrow> string + float64"
  ParseDuration :: "string \<Rightarrow> string + int64"

text \<open>\<open>time.Minute\<close>, in nanoseconds.\<close>

definition Minute :: int64 where
  "Minute = 60 * 1000000000"

subsection \<open>\<open>strings.Split\<close> and \<open>strings.Join\<close>\<close>

text \<open>
  \<open>Split_from sep piece s\<close> scans \<open>s\<close> from the left; \<open>piece\<close> is the part of the current
  piece already read.  At an occurrence of \<open>sep\<close> the piece ends and the scan goes on
  behind the separator, so occurrences do not overlap.
\<close>

function Split_from :: "string \<Rightarrow> string \<Rightarrow> string \<Rightarrow> string list" where
  "Split_from sep piece [] = [piece]"
| "Split_from sep piece (c # cs) =
     (if sep \<noteq> [] \<and> take (length sep) (c # cs) = sep
      then piece # Split_from sep [] (drop (length sep - 1) cs)
      else Split_from sep (piece @ [c]) cs)"
  by pat_completeness auto
termination
  by (relation "measure (\<lambda>(sep, piece, s). length s)") auto

text \<open>
  With an empty separator Go splits after every UTF-8 sequence (and returns no piece for
  the empty string); the package never calls \<open>Split\<close> that way, and the model splits
  after every byte there.
\<close>

definition Split :: "string \<Rightarrow> string \<Rightarrow> string list" where
  "Split s sep = (if sep = [] then map (\<lambda>c. [c]) s else Split_from sep [] s)"

fun Join :: "string list \<Rightarrow> string \<Rightarrow> string" where
  "Join [] sep = []"
| "Join [x] sep = x"
| "Join (x # y # ys) sep = x @ sep @ Join (y # ys) sep"

subsection \<open>Values, as reflection sees them\<close>

text \<open>
  \<open>kind\<close> lists the kinds the source tests for; every other kind of Go (\<open>Int8\<close>,
  \<open>Array\<close>, \<open>Map\<close>, \<open>Interface\<close>, ...) is \<open>OtherKind\<close>.  \<open>Int_kind\<close> is
  \<open>reflect.Int\<close>, and \<open>Invalid\<close> is the kind of the zero \<open>reflect.Value\<close>, which \<open>Elem\<close>
  returns for a nil pointer.
\<close>

datatype kind =
    Invalid | Bool | Int_kind | Uint | Float32 | Float64 | Int64 | String
  | Slice | Struct | Ptr | OtherKind

text \<open>
  A slice value with its type: the six slice types \<open>handleSlice\<close> knows, and any other
  slice type (\<open>[]uint\<close>, a defined type over \<open>[]string\<close>, ...), whose elements the
  model does not look at.  An \<open>int\<close> is kept in 64 bits; a \<open>float32\<close> is kept as the
  \<open>float64\<close> that \<open>ParseFloat\<close> returned for bit size 32.
\<close>

datatype slice =
    sliceOfStrings "string list"
  | sliceOfInts "int64 list"
  | sliceOfInt64s "int64 list"
  | sliceOfFloat32s "float64 list"
  | sliceOfFloat64s "float64 list"
  | sliceOfBools "bool list"
  | sliceOfOther

text \<open>
  A value is a tree: a pointer owns its pointee (\<open>VPtr None\<close> is the nil pointer), so
  two pointers never share a pointee and no pointer reaches itself.  \<open>VInt64\<close> carries
  what \<open>Type.String()\<close> prints for the field's type (\<open>''int64''\<close>,
  \<open>''time.Duration''\<close>).  \<open>VFloat64\<close> is a field of the predeclared type \<open>float64\<close>; a
  field of a defined type over \<open>float64\<close> is not a value of the model (for that one
  kind \<open>set\<close> calls \<open>Set\<close> with a \<open>float64\<close>, which \<open>reflect\<close> refuses with a panic).
  \<open>VOther\<close> is a value of any kind the source does not name, the nil interface among
  them.

  A field is the \<open>reflect.StructField\<close> (name and tag, the tag as the list of its
  key-value pairs) together with the \<open>reflect.Value\<close> of the field: what \<open>CanSet\<close>
  answers for it when the walk comes to it (true for an exported field reached from the
  pointer through exported fields), and its value.  \<open>nwrites\<close> is not data of the
  program: it counts the
  calls of \<open>Set\<close>, \<open>SetString\<close>, \<open>SetBool\<close>, \<open>SetInt\<close>, \<open>SetUint\<close> and \<open>SetFloat\<close> on the
  field.
\<close>

datatype val =
    VString string
  | VBool bool
  | VInt int64
  | VUint uint64
  | VFloat32 float64
  | VFloat64 float64
  | VInt64 string int64
  | VSlice slice
  | VStruct "field list"
  | VPtr "val option"
  | VOther
and field =
    Field (Name: string) (Tag: "(string \<times> string) list") (CanSet: bool)
          (nwrites: nat) (fval: val)

fun Kind :: "val \<Rightarrow> kind" where
  "Kind (VString _) = String"
| "Kind (VBool _) = Bool"
| "Kind (VInt _) = Int_kind"
| "Kind (VUint _) = Uint"
| "Kind (VFloat32 _) = Float32"
| "Kind (VFloat64 _) = Float64"
| "Kind (VInt64 _ _) = Int64"
| "Kind (VSlice _) = Slice"
| "Kind (VStruct _) = Struct"
| "Kind (VPtr _) = Ptr"
| "Kind VOther = OtherKind"

fun IsNil :: "val \<Rightarrow> bool" where
  "IsNil (VPtr None) = True"
| "IsNil _ = False"

text \<open>The kind of \<open>v.Elem()\<close> for a pointer \<open>v\<close>.\<close>

fun Elem_Kind :: "val \<Rightarrow> kind" where
  "Elem_Kind (VPtr (Some v)) = Kind v"
| "Elem_Kind _ = Invalid"

text \<open>\<open>StructTag.Get\<close>: the value of the key, the empty string when the tag has none.\<close>

definition Tag_Get :: "(string \<times> string) list \<Rightarrow> string \<Rightarrow> string" where
  "Tag_Get tag key = (case map_of tag key of Some v \<Rightarrow> v | None \<Rightarrow> [])"

text \<open>A call of one of the \<open>Set\<close> methods on the field: the new value, one write more.\<close>

definition Set_field :: "field \<Rightarrow> val \<Rightarrow> field" where
  "Set_field f v = Field (Name f) (Tag f) (CanSet f) (Suc (nwrites f)) v"

text \<open>The field with a nested struct or pointee changed in place: no write to the field.\<close>

definition with_val :: "field \<Rightarrow> val \<Rightarrow> field" where
  "with_val f v = Field (Name f) (Tag f) (CanSet f) (nwrites f) v"

subsection \<open>The resolver: \<open>get\<close>\<close>

text \<open>
  \<open>parseKeyForOption\<close> returns \<open>opts[0]\<close> and \<open>opts[1:]\<close> of the tag split at commas.
  \<open>Split\<close> with a non-empty separator returns at least one piece (\<open>Split_not_Nil\<close>
  below), so the index never fails and the second case is never taken.
\<close>

definition parseKeyForOption :: "string \<Rightarrow> string \<times> string list" where
  "parseKeyForOption key =
     (case Split key '','' of opt0 # rest \<Rightarrow> (opt0, rest) | [] \<Rightarrow> ([], []))"

text \<open>A Go result \<open>(string, error)\<close> is a pair; \<open>None\<close> is the nil error.\<close>

definition getRequired :: "golib \<Rightarrow> string \<Rightarrow> string \<times> error option" where
  "getRequired lib key =
     (case LookupEnv lib key of
        Some v \<Rightarrow> (v, None)
      | None \<Rightarrow>
          ([], Some (errors_New (''Required environment variable '' @ key @ '' is not set''))))"

definition getOr :: "golib \<Rightarrow> string \<Rightarrow> string \<Rightarrow> string" where
  "getOr lib key defaultValue =
     (case LookupEnv lib key of Some v \<Rightarrow> v | None \<Rightarrow> defaultValue)"

text \<open>The loop over the options of \<open>get\<close>; the pair is the current \<open>val\<close> and \<open>err\<close>.\<close>

fun get_opts :: "golib \<Rightarrow> string \<Rightarrow> string list \<Rightarrow> string \<times> error option
                 \<Rightarrow> string \<times> error option" where
  "get_opts lib key [] r = r"
| "get_opts lib key (opt # opts) (val, err) =
     (if opt = [] then get_opts lib key opts (val, err)
      else if opt = ''required'' then get_opts lib key opts (getRequired lib key)
      else get_opts lib key opts
             (val, Some (errors_New (''Env tag option '' @ opt @ '' not supported.''))))"

definition get :: "golib \<Rightarrow> field \<Rightarrow> string \<times> error option" where
  "get lib f =
     (let (key, opts) = parseKeyForOption (Tag_Get (Tag f) ''env'');
          defaultValue = Tag_Get (Tag f) ''envDefault''
      in get_opts lib key opts (getOr lib key defaultValue, None))"

subsection \<open>The converter: \<open>set\<close> and \<open>handleSlice\<close>\<close>

text \<open>
  The five element loops: each parses the pieces from the left, appends to the slice
  built so far and returns at the first piece that fails, with that piece's error.
\<close>

fun parseInts_loop :: "golib \<Rightarrow> string list \<Rightarrow> int64 list \<Rightarrow> error + int64 list" where
  "parseInts_loop lib [] intSlice = Inr intSlice"
| "parseInts_loop lib (v # data) intSlice =
     (case ParseInt lib v 10 32 of
        Inl e \<Rightarrow> Inl (LibError e)
      | Inr intValue \<Rightarrow> parseInts_loop lib data (intSlice @ [intValue]))"

definition parseInts :: "golib \<Rightarrow> string list \<Rightarrow> error + int64 list" where
  "parseInts lib data = parseInts_loop lib data []"

fun parseInt64s_loop :: "golib \<Rightarrow> string list \<Rightarrow> int64 list \<Rightarrow> error + int64 list" where
  "parseInt64s_loop lib [] intSlice = Inr intSlice"
| "parseInt64s_loop lib (v # data) intSlice =
     (case ParseInt lib v 10 64 of
        Inl e \<Rightarrow> Inl (LibError e)
      | Inr intValue \<Rightarrow> parseInt64s_loop lib data (intSlice @ [intValue]))"

definition parseInt64s :: "golib \<Rightarrow> string list \<Rightarrow> error + int64 list" where
  "parseInt64s lib data = parseInt64s_loop lib data []"

fun parseFloat32s_loop ::
  "golib \<Rightarrow> string list \<Rightarrow> float64 list \<Rightarrow> error + float64 list" where
  "parseFloat32s_loop lib [] float32Slice = Inr float32Slice"
| "parseFloat32s_loop lib (v # data) float32Slice =
     (case ParseFloat lib v 32 of
        Inl e \<Rightarrow> Inl (LibError e)
      | Inr x \<Rightarrow> parseFloat32s_loop lib data (float32Slice @ [x]))"

definition parseFloat32s :: "golib \<Rightarrow> string list \<Rightarrow> error + float64 list" where
  "parseFloat32s lib data = parseFloat32s_loop lib data []"

fun parseFloat64s_loop ::
  "golib \<Rightarrow> string list \<Rightarrow> float64 list \<Rightarrow> error + float64 list" where
  "parseFloat64s_loop lib [] float64Slice = Inr float64Slice"
| "parseFloat64s_loop lib (v # data) float64Slice =
     (case ParseFloat lib v 64 of
        Inl e \<Rightarrow> Inl (LibError e)
      | Inr x \<Rightarrow> parseFloat64s_loop lib data (float64Slice @ [x]))"

definition parseFloat64s :: "golib \<Rightarrow> string list \<Rightarrow> error + float64 list" where
  "parseFloat64s lib data = parseFloat64s_loop lib data []"

fun parseBools_loop :: "golib \<Rightarrow> string list \<Rightarrow> bool list \<Rightarrow> error + bool list" where
  "parseBools_loop lib [] boolSlice = Inr boolSlice"
| "parseBools_loop lib (v # data) boolSlice =
     (case ParseBool lib v of
        Inl e \<Rightarrow> Inl (LibError e)
      | Inr bvalue \<Rightarrow> parseBools_loop lib data (boolSlice @ [bvalue]))"

definition parseBools :: "golib \<Rightarrow> string list \<Rightarrow> error + bool list" where
  "parseBools lib data = parseBools_loop lib data []"

text \<open>
  \<open>handleSlice\<close> and \<open>set\<close> return the error, or the field after the one \<open>Set\<close> call
  they make; on an error they have written nothing.
\<close>

definition handleSlice :: "golib \<Rightarrow> field \<Rightarrow> slice \<Rightarrow> string \<Rightarrow> string \<Rightarrow> error + field" where
  "handleSlice lib f ty value separator =
     (let separator = (if separator = [] then '','' else separator);
          splitData = Split value separator
      in case ty of
           sliceOfStrings _ \<Rightarrow> Inr (Set_field f (VSlice (sliceOfStrings splitData)))
         | sliceOfInts _ \<Rightarrow>
             (case parseInts lib splitData of
                Inl err \<Rightarrow> Inl err
              | Inr intData \<Rightarrow> Inr (Set_field f (VSlice (sliceOfInts intData))))
         | sliceOfInt64s _ \<Rightarrow>
             (case parseInt64s lib splitData of
                Inl err \<Rightarrow> Inl err
              | Inr int64Data \<Rightarrow> Inr (Set_field f (VSlice (sliceOfInt64s int64Data))))
         | sliceOfFloat32s _ \<Rightarrow>
             (case parseFloat32s lib splitData of
                Inl err \<Rightarrow> Inl err
              | Inr data \<Rightarrow> Inr (Set_field f (VSlice (sliceOfFloat32s data))))
         | sliceOfFloat64s _ \<Rightarrow>
             (case parseFloat64s lib splitData of
                Inl err \<Rightarrow> Inl err
              | Inr data \<Rightarrow> Inr (Set_field f (VSlice (sliceOfFloat64s data))))
         | sliceOfBools _ \<Rightarrow>
             (case parseBools lib splitData of
                Inl err \<Rightarrow> Inl err
              | Inr boolData \<Rightarrow> Inr (Set_field f (VSlice (sliceOfBools boolData))))
         | sliceOfOther \<Rightarrow> Inl ErrUnsupportedSliceType)"

definition set_field :: "golib \<Rightarrow> field \<Rightarrow> string \<Rightarrow> error + field" where
  "set_field lib f value =
     (case fval f of
        VSlice ty \<Rightarrow> handleSlice lib f ty value (Tag_Get (Tag f) ''envSeparator'')
      | VString _ \<Rightarrow> Inr (Set_field f (VString value))
      | VBool _ \<Rightarrow>
          (case ParseBool lib value of
             Inl e \<Rightarrow> Inl (LibError e)
           | Inr bvalue \<Rightarrow> Inr (Set_field f (VBool bvalue)))
      | VInt _ \<Rightarrow>
          (case ParseInt lib value 10 32 of
             Inl e \<Rightarrow> Inl (LibError e)
           | Inr intValue \<Rightarrow> Inr (Set_field f (VInt intValue)))
      | VUint _ \<Rightarrow>
          (case ParseUint lib value 10 32 of
             Inl e \<Rightarrow> Inl (LibError e)
           | Inr uintValue \<Rightarrow> Inr (Set_field f (VUint uintValue)))
      | VFloat32 _ \<Rightarrow>
          (case ParseFloat lib value 32 of
             Inl e \<Rightarrow> Inl (LibError e)
           | Inr v \<Rightarrow> Inr (Set_field f (VFloat32 v)))
      | VFloat64 _ \<Rightarrow>
          (case ParseFloat lib value 64 of
             Inl e \<Rightarrow> Inl (LibError e)
           | Inr v \<Rightarrow> Inr (Set_field f (VFloat64 v)))
      | VInt64 tn _ \<Rightarrow>
          (if tn = ''time.Duration'' then
             (case ParseDuration lib value of
                Inl e \<Rightarrow> Inl (LibError e)
              | Inr dValue \<Rightarrow> Inr (Set_field f (VInt64 tn dValue)))
           else
             (case ParseInt lib value 10 64 of
                Inl e \<Rightarrow> Inl (LibError e)
              | Inr intValue \<Rightarrow> Inr (Set_field f (VInt64 tn intValue))))
      | VStruct _ \<Rightarrow> Inl ErrMismatchType
      | VPtr _ \<Rightarrow> Inl ErrUnsupportedType
      | VOther \<Rightarrow> Inl ErrUnsupportedType)"

subsection \<open>The binder: \<open>Parse\<close> and \<open>doParse\<close>\<close>

text \<open>
  The struct is changed in place, also when the call fails, so every function returns
  the value after the call beside its result.  \<open>finish\<close> is the end of \<open>doParse\<close>: the
  loop has either returned an error (\<open>Inl\<close>) or run through with its \<open>errorList\<close>.
\<close>

definition finish :: "error + string list \<Rightarrow> error option" where
  "finish r =
     (case r of
        Inl err \<Rightarrow> Some err
      | Inr errorList \<Rightarrow>
          (if length errorList = 0 then None
           else Some (errors_New (Join errorList ''. ''))))"

text \<open>
  \<open>doField\<close> is one turn of the loop of \<open>doParse\<close> on field \<open>i\<close>: it returns the field
  after the turn and either the error the loop returns with (\<open>Inl\<close>) or the
  \<open>errorList\<close> the loop continues with.  \<open>fields_loop\<close> is the loop over the fields that
  are left.  Where a \<open>case\<close> on the value follows a test of its kind, the last case
  stands for the values that test excludes and is never taken.
\<close>

function (sequential) Parse :: "golib \<Rightarrow> val \<Rightarrow> val \<times> error option"
  and doParse :: "golib \<Rightarrow> field list \<Rightarrow> field list \<times> error option"
  and fields_loop ::
    "golib \<Rightarrow> field list \<Rightarrow> string list \<Rightarrow> field list \<times> (error + string list)"
  and doField :: "golib \<Rightarrow> field \<Rightarrow> string list \<Rightarrow> field \<times> (error + string list)"
where
  "Parse lib v =
     (if Kind v \<noteq> Ptr then (v, Some ErrNotAStructPtr)
      else if Elem_Kind v \<noteq> Struct then (v, Some ErrNotAStructPtr)
      else (case v of
              VPtr (Some (VStruct ref)) \<Rightarrow>
                (let (ref', err) = doParse lib ref in (VPtr (Some (VStruct ref')), err))
            | _ \<Rightarrow> (v, Some ErrNotAStructPtr)))"
| "doParse lib ref = (let (ref', r) = fields_loop lib ref [] in (ref', finish r))"
| "fields_loop lib [] errorList = ([], Inr errorList)"
| "fields_loop lib (f # fs) errorList =
     (case doField lib f errorList of
        (f', Inl err) \<Rightarrow> (f' # fs, Inl err)
      | (f', Inr errorList') \<Rightarrow>
          (let (fs', r) = fields_loop lib fs errorList' in (f' # fs', r)))"
| "doField lib f errorList =
     (if Ptr = Kind (fval f) \<and> \<not> IsNil (fval f) \<and> CanSet f then
        (case Parse lib (fval f) of
           (v', Some err) \<Rightarrow> (with_val f v', Inl err)
         | (v', None) \<Rightarrow> (with_val f v', Inr errorList))
      else if \<not> CanSet f \<and> Kind (fval f) \<noteq> Struct then (f, Inr errorList)
      else
        (let (value, err) = get lib f in
         if Kind (fval f) = Struct \<and> value = [] then
           (case fval f of
              VStruct inner \<Rightarrow>
                (let (inner', _) = doParse lib inner
                 in (with_val f (VStruct inner'), Inr errorList))
            | _ \<Rightarrow> (f, Inr errorList))
         else if Kind (fval f) = Ptr \<and> Elem_Kind (fval f) = Struct \<and> value = [] then
           (case fval f of
              VPtr (Some (VStruct inner)) \<Rightarrow>
                (let (inner', _) = doParse lib inner
                 in (with_val f (VPtr (Some (VStruct inner'))), Inr errorList))
            | _ \<Rightarrow> (f, Inr errorList))
         else
           (case err of
              Some e \<Rightarrow> (f, Inr (errorList @ [Error e]))
            | None \<Rightarrow>
                (if value = [] then (f, Inr errorList)
                 else
                   (case set_field lib f value of
                      Inl e \<Rightarrow> (f, Inr (errorList @ [Error e]))
                    | Inr f' \<Rightarrow> (f', Inr errorList))))))"
  by pat_completeness auto
termination
  apply (relation "measure (\<lambda>x. case x of
      Inl (Inl (lib, v)) \<Rightarrow> 2 * size v
    | Inl (Inr (lib, ref)) \<Rightarrow> 2 * size_list size ref + 1
    | Inr (Inl (lib, fs, errorList)) \<Rightarrow> 2 * size_list size fs
    | Inr (Inr (lib, f, errorList)) \<Rightarrow> 2 * size f)")
  apply simp_all
  subgoal for f by (cases f) simp
  subgoal for lib f x xa y inner by (cases f) simp
  done

declare Parse.simps [simp del] doParse.simps [simp del] doField.simps [simp del]

text \<open>
  A pointer to a struct, the only argument \<open>Parse\<close> accepts.
\<close>

fun is_struct_ptr :: "val \<Rightarrow> bool" where
  "is_struct_ptr (VPtr (Some (VStruct _))) = True"
| "is_struct_ptr _ = False"

subsection \<open>A library and an environment to compute with\<close>

text \<open>
  To run the model on concrete structs the parameter needs a value.  \<open>demo_lib env\<close> has
  the environment \<open>env\<close> (a list of pairs of a name and a value) and parsers that accept
  the literals listed here and nothing else, with the values Go's parsers give for them
  (the messages of their errors are shortened: Go quotes the input).
  The theorems below hold for every library; this one only instantiates them.
\<close>

definition demo_ParseBool :: "string \<Rightarrow> string + bool" where
  "demo_ParseBool s =
     (if s \<in> set [''1'', ''t'', ''T'', ''TRUE'', ''true'', ''True''] then Inr True
      else if s \<in> set [''0'', ''f'', ''F'', ''FALSE'', ''false'', ''False''] then Inr False
      else Inl (''strconv.ParseBool: parsing '' @ s @ '': invalid syntax''))"

definition demo_ParseInt :: "string \<Rightarrow> nat \<Rightarrow> nat \<Rightarrow> string + int64" where
  "demo_ParseInt s base bitSize =
     (if s = ''1'' then Inr 1 else if s = ''2'' then Inr 2 else if s = ''3000'' then Inr 3000
      else Inl (''strconv.ParseInt: parsing '' @ s @ '': invalid syntax''))"

definition demo_ParseFloat :: "string \<Rightarrow> nat \<Rightarrow> string + float64" where
  "demo_ParseFloat s bitSize =
     (if s = ''0'' then Inr 0
      else Inl (''strconv.ParseFloat: parsing '' @ s @ '': invalid syntax''))"

definition demo_ParseDuration :: "string \<Rightarrow> string + int64" where
  "demo_ParseDuration s =
     (if s = ''1h30m'' then Inr (90 * Minute)
      else Inl (''time: invalid duration '' @ s))"

definition demo_lib :: "(string \<times> string) list \<Rightarrow> golib" where
  "demo_lib env =
     \<lparr> LookupEnv = map_of env,
       ParseBool = demo_ParseBool,
       ParseInt = demo_ParseInt,
       ParseUint = demo_ParseInt,
       ParseFloat = demo_ParseFloat,
       ParseDuration = demo_ParseDuration \<rparr>"

subsection \<open>The messages of one field\<close>

text \<open>
  The messages the turn of the loop on field \<open>f\<close> appends to the \<open>errorList\<close> (none when
  the turn returns from \<open>doParse\<close>).
\<close>

definition field_messages :: "golib \<Rightarrow> field \<Rightarrow> string list" where
  "field_messages lib f = (case snd (doField lib f []) of Inl e \<Rightarrow> [] | Inr new \<Rightarrow> new)"

subsection \<open>The conversion of a sequence, in the words of the specification\<close>

text \<open>
  The specification says of a sequence field: "element-convert each piece with the
  matching scalar rule, failing the whole field on the first element that fails to
  parse".  \<open>spec_convert_each p pieces\<close> does this with the scalar parser \<open>p\<close>; the five
  loops of the source are compared with it below.
\<close>

fun spec_convert_each :: "(string \<Rightarrow> string + 'a) \<Rightarrow> string list \<Rightarrow> error + 'a list" where
  "spec_convert_each p [] = Inr []"
| "spec_convert_each p (x # xs) =
     (case p x of
        Inl m \<Rightarrow> Inl (LibError m)
      | Inr v \<Rightarrow> (case spec_convert_each p xs of Inl e \<Rightarrow> Inl e | Inr vs \<Rightarrow> Inr (v # vs)))"

subsection \<open>Example structs\<close>

text \<open>
  Fields of the two example programs and of structs like them:
  \<^verbatim>\<open>A string `env:"A,required"`\<close>, \<^verbatim>\<open>Home string `env:"HOME"`\<close>,
  \<^verbatim>\<open>type Foo struct { Name string `env:"EXAMPLE_FOO,required"` }\<close> with \<open>Name\<close> set to
  \<open>"a"\<close>, \<^verbatim>\<open>ExampleFoo *Foo\<close> pointing to such a \<open>Foo\<close>, and \<^verbatim>\<open>Inner Foo\<close> holding
  one by value; all exported, in a struct passed by pointer.
\<close>

definition ex_A :: field where
  "ex_A = Field ''A'' [(''env'', ''A,required'')] True 0 (VString [])"

definition ex_Foo :: "field list" where
  "ex_Foo = [Field ''Name'' [(''env'', ''EXAMPLE_FOO,required'')] True 0 (VString ''a'')]"

definition ex_ExampleFoo :: field where
  "ex_ExampleFoo = Field ''ExampleFoo'' [] True 0 (VPtr (Some (VStruct ex_Foo)))"

definition ex_Inner :: field where
  "ex_Inner = Field ''Inner'' [] True 0 (VStruct ex_Foo)"

definition ex_Home :: field where
  "ex_Home = Field ''Home'' [(''env'', ''HOME'')] True 0 (VString [])"

definition ex_env :: "(string \<times> string) list" where
  "ex_env = [(''HOME'', ''/root'')]"

text \<open>
  \<^verbatim>\<open>Count *int\<close> pointing to an \<open>int\<close>, and the nil pointer
  \<^verbatim>\<open>Limit *int `env:"LIMIT"`\<close>.
\<close>

definition ex_Count :: field where
  "ex_Count = Field ''Count'' [] True 0 (VPtr (Some (VInt 0)))"

definition ex_Limit :: field where
  "ex_Limit = Field ''Limit'' [(''env'', ''LIMIT'')] True 0 (VPtr None)"

text \<open>\<^verbatim>\<open>Debug bool `env:"DEBUG" envDefault:"maybe"`\<close>.\<close>

definition ex_Debug :: field where
  "ex_Debug = Field ''Debug'' [(''env'', ''DEBUG''), (''envDefault'', ''maybe'')] True 0
                (VBool False)"


definition ex_Bar :: "field list" where
  "ex_Bar = [Field ''Name1'' [(''env'', ''EXAMPLE_FOO1'')] True 0 (VString [])]"


definition ex_InnerRequired :: field where
  "ex_InnerRequired = Field ''Inner'' [(''env'', ''INNER,required'')] True 0 (VStruct ex_Bar)"

text \<open>
  \<^verbatim>\<open>Port string `env:"PORT,required,bogus" envDefault:"3000"`\<close>, and the same field with
  the last option alone, \<^verbatim>\<open>`env:"PORT,bogus" envDefault:"3000"`\<close>.
\<close>

definition ex_PortRequiredBogus :: field where
  "ex_PortRequiredBogus =
     Field ''Port'' [(''env'', ''PORT,required,bogus''), (''envDefault'', ''3000'')] True 0
       (VString [])"

definition ex_PortBogus :: field where
  "ex_PortBogus =
     Field ''Port'' [(''env'', ''PORT,bogus''), (''envDefault'', ''3000'')] True 0 (VString [])"

text \<open>
  \<^verbatim>\<open>Hosts []string `env:"HOSTS" envSeparator:":"`\<close>, \<^verbatim>\<open>Ports []int `env:"PORTS"`\<close>,
  \<^verbatim>\<open>Ids []uint `env:"IDS"`\<close> and \<^verbatim>\<open>Duration time.Duration `env:"DURATION"`\<close>.
\<close>

definition ex_Hosts :: field where
  "ex_Hosts = Field ''Hosts'' [(''env'', ''HOSTS''), (''envSeparator'', '':'')] True 0
                (VSlice (sliceOfStrings []))"

definition ex_Ports :: field where
  "ex_Ports = Field ''Ports'' [(''env'', ''PORTS'')] True 0 (VSlice (sliceOfInts []))"

definition ex_Ids :: field where
  "ex_Ids = Field ''Ids'' [(''env'', ''IDS'')] True 0 (VSlice sliceOfOther)"

definition ex_Duration :: field where
  "ex_Duration = Field ''Duration'' [(''env'', ''DURATION'')] True 0
                   (VInt64 ''time.Duration'' 0)"

section \<open>Properties\<close>

subsection \<open>Helper facts\<close>

lemma Split_from_not_Nil: "Split_from sep piece s \<noteq> []"
  by (induction sep piece s rule: Split_from.induct) auto

lemma Split_not_Nil: "sep \<noteq> [] \<Longrightarrow> Split s sep \<noteq> []"
  by (simp add: Split_def Split_from_not_Nil)

lemma Parse_not_struct_ptr:
  "\<not> is_struct_ptr v \<Longrightarrow> Parse lib v = (v, Some ErrNotAStructPtr)"
  by (cases v rule: is_struct_ptr.cases) (simp_all add: Parse.simps)

lemma Parse_struct_ptr:
  "Parse lib (VPtr (Some (VStruct ref))) =
     (VPtr (Some (VStruct (fst (doParse lib ref)))), snd (doParse lib ref))"
  by (simp add: Parse.simps split: prod.splits)

lemma IsNil_VPtr: "IsNil (VPtr x) = (x = None)"
  by (cases x) simp_all

text \<open>The loop keeps the number of fields, and splits at any field.\<close>

lemma fields_loop_length: "length (fst (fields_loop lib fs errs)) = length fs"
proof (induction fs arbitrary: errs)
  case Nil
  show ?case by simp
next
  case (Cons f fs)
  obtain f' r where df: "doField lib f errs = (f', r)" by (cases "doField lib f errs")
  show ?case
  proof (cases r)
    case (Inl e)
    with df show ?thesis by simp
  next
    case (Inr errs')
    with df Cons.IH [of errs'] show ?thesis by (simp add: split_beta)
  qed
qed

lemma fields_loop_append:
  "fields_loop lib (xs @ ys) errs =
     (case fields_loop lib xs errs of
        (xs', Inl e) \<Rightarrow> (xs' @ ys, Inl e)
      | (xs', Inr errs') \<Rightarrow>
          (case fields_loop lib ys errs' of (ys', r) \<Rightarrow> (xs' @ ys', r)))"
  by (induction xs arbitrary: errs) (auto split: prod.splits sum.splits)

text \<open>The messages one turn of the loop adds do not depend on the list before.\<close>

lemma doField_errs:
  "doField lib f errs =
     (case doField lib f [] of
        (f', Inl e) \<Rightarrow> (f', Inl e)
      | (f', Inr new) \<Rightarrow> (f', Inr (errs @ new)))"
  by (cases "fval f")
     (simp_all add: doField.simps [of lib f errs] doField.simps [of lib f "[]"] IsNil_VPtr
           split: prod.splits sum.splits option.splits)

lemma fields_loop_at:
  assumes "fields_loop lib pre [] = (pre', Inr errs)"
  shows "fields_loop lib (pre @ f # post) [] =
     (case doField lib f errs of
        (f', Inl e) \<Rightarrow> (pre' @ f' # post, Inl e)
      | (f', Inr errs') \<Rightarrow>
          (case fields_loop lib post errs' of (post', r) \<Rightarrow> (pre' @ f' # post', r)))"
  using assms by (simp add: fields_loop_append split: prod.splits sum.splits)

lemma fields_loop_abort:
  assumes "fields_loop lib pre [] = (pre', Inl e)"
  shows "fields_loop lib (pre @ rest) [] = (pre' @ rest, Inl e)"
  using assms by (simp add: fields_loop_append)

text \<open>One turn of the loop, by the shape of the field.\<close>

lemma doField_ptr:
  assumes "Kind (fval f) = Ptr" "\<not> IsNil (fval f)" "CanSet f"
  shows "doField lib f errs =
     (with_val f (fst (Parse lib (fval f))),
      case snd (Parse lib (fval f)) of Some e \<Rightarrow> Inl e | None \<Rightarrow> Inr errs)"
  using assms by (simp add: doField.simps [of lib f errs] split: prod.splits option.splits)

lemma doField_skip:
  assumes "\<not> CanSet f" "Kind (fval f) \<noteq> Struct"
  shows "doField lib f errs = (f, Inr errs)"
  using assms by (simp add: doField.simps [of lib f errs])

lemma doField_struct_empty:
  assumes "fval f = VStruct inner" "fst (get lib f) = []"
  shows "doField lib f errs = (with_val f (VStruct (fst (doParse lib inner))), Inr errs)"
proof -
  from assms(2) obtain err where g: "get lib f = ([], err)" by (cases "get lib f") simp
  show ?thesis
    by (simp add: doField.simps [of lib f errs] assms(1) g split: prod.splits)
qed

lemma doField_leaf:
  assumes "CanSet f" "Kind (fval f) \<noteq> Struct" "Kind (fval f) \<noteq> Ptr"
  shows "doField lib f errs =
     (case get lib f of
        (value, Some e) \<Rightarrow> (f, Inr (errs @ [Error e]))
      | (value, None) \<Rightarrow>
          (if value = [] then (f, Inr errs)
           else (case set_field lib f value of
                   Inl e \<Rightarrow> (f, Inr (errs @ [Error e]))
                 | Inr f' \<Rightarrow> (f', Inr errs))))"
  using assms by (simp add: doField.simps [of lib f errs] split: prod.splits option.splits)

lemma doField_nil_ptr:
  assumes "IsNil (fval f)"
  shows "doField lib f errs =
     (f, Inr (errs @
        (if \<not> CanSet f then []
         else (case get lib f of
                 (value, Some e) \<Rightarrow> [Error e]
               | (value, None) \<Rightarrow> (if value = [] then [] else [Error ErrUnsupportedType])))))"
proof -
  from assms have v: "fval f = VPtr None" by (cases "fval f" rule: IsNil.cases) simp_all
  show ?thesis
    by (simp add: doField.simps [of lib f errs] v set_field_def
             split: prod.splits option.splits)
qed

lemma with_val_same: "with_val f (fval f) = f"
  by (cases f) (simp add: with_val_def)


lemma fields_loop_Inr_messages:
  "fields_loop lib fs errs0 = (fs', Inr errs) \<Longrightarrow>
     errs = errs0 @ concat (map (field_messages lib) fs)"
proof (induction fs arbitrary: errs0 fs')
  case Nil
  then show ?case by simp
next
  case (Cons f fs)
  obtain f' r where df: "doField lib f [] = (f', r)" by (cases "doField lib f []")
  show ?case
  proof (cases r)
    case (Inl e)
    with df Cons.prems show ?thesis by (simp add: doField_errs [of lib f errs0])
  next
    case (Inr new)
    obtain fs1 r1 where fl: "fields_loop lib fs (errs0 @ new) = (fs1, r1)"
      by (cases "fields_loop lib fs (errs0 @ new)")
    with Inr df Cons.prems have "r1 = Inr errs"
      by (simp add: doField_errs [of lib f errs0])
    with fl Cons.IH [of "errs0 @ new" fs1] have "errs = (errs0 @ new) @ concat (map (field_messages lib) fs)"
      by simp
    moreover from Inr df have "field_messages lib f = new" by (simp add: field_messages_def)
    ultimately show ?thesis by simp
  qed
qed






lemma doParse_Inr:
  "fields_loop lib fs [] = (fs', Inr errs) \<Longrightarrow>
     doParse lib fs = (fs', if errs = [] then None else Some (errors_New (Join errs ''. '')))"
  by (simp add: doParse.simps finish_def)


text \<open>The resolver in closed form.\<close>

lemma get_opts_closed:
  "get_opts lib key opts (v, e) =
     (if ''required'' \<in> set opts then fst (getRequired lib key) else v,
      if filter (\<lambda>opt. opt \<noteq> []) opts = [] then e
      else if last (filter (\<lambda>opt. opt \<noteq> []) opts) = ''required''
        then snd (getRequired lib key)
      else Some (errors_New (''Env tag option '' @ last (filter (\<lambda>opt. opt \<noteq> []) opts)
                              @ '' not supported.'')))"
proof (induction opts arbitrary: v e)
  case Nil
  show ?case by simp
next
  case (Cons opt opts)
  obtain v' e' where g: "getRequired lib key = (v', e')" by (cases "getRequired lib key")
  show ?case
    by (simp add: Cons.IH g)
qed

lemma get_closed:
  assumes "parseKeyForOption (Tag_Get (Tag f) ''env'') = (key, opts)"
  shows "get lib f =
     (if ''required'' \<in> set opts then fst (getRequired lib key)
      else getOr lib key (Tag_Get (Tag f) ''envDefault''),
      if filter (\<lambda>opt. opt \<noteq> []) opts = [] then None
      else if last (filter (\<lambda>opt. opt \<noteq> []) opts) = ''required''
        then snd (getRequired lib key)
      else Some (errors_New (''Env tag option '' @ last (filter (\<lambda>opt. opt \<noteq> []) opts)
                              @ '' not supported.'')))"
  using assms by (simp add: get_def get_opts_closed)





lemma get_opts_append:
  "get_opts lib key (xs @ ys) r = get_opts lib key ys (get_opts lib key xs r)"
proof (induction xs arbitrary: r)
  case Nil
  show ?case by simp
next
  case (Cons opt xs)
  obtain v e where r: "r = (v, e)" by (cases r)
  show ?case by (simp add: r Cons.IH)
qed

text \<open>The element loops of the source against the specification's conversion.\<close>

lemma parseInts_loop_spec:
  "parseInts_loop lib data acc =
     (case spec_convert_each (\<lambda>v. ParseInt lib v 10 32) data of
        Inl e \<Rightarrow> Inl e | Inr vs \<Rightarrow> Inr (acc @ vs))"
  by (induction data arbitrary: acc) (simp_all split: sum.splits)

lemma parseInt64s_loop_spec:
  "parseInt64s_loop lib data acc =
     (case spec_convert_each (\<lambda>v. ParseInt lib v 10 64) data of
        Inl e \<Rightarrow> Inl e | Inr vs \<Rightarrow> Inr (acc @ vs))"
  by (induction data arbitrary: acc) (simp_all split: sum.splits)

lemma parseFloat32s_loop_spec:
  "parseFloat32s_loop lib data acc =
     (case spec_convert_each (\<lambda>v. ParseFloat lib v 32) data of
        Inl e \<Rightarrow> Inl e | Inr vs \<Rightarrow> Inr (acc @ vs))"
  by (induction data arbitrary: acc) (simp_all split: sum.splits)

lemma parseFloat64s_loop_spec:
  "parseFloat64s_loop lib data acc =
     (case spec_convert_each (\<lambda>v. ParseFloat lib v 64) data of
        Inl e \<Rightarrow> Inl e | Inr vs \<Rightarrow> Inr (acc @ vs))"
  by (induction data arbitrary: acc) (simp_all split: sum.splits)

lemma parseBools_loop_spec:
  "parseBools_loop lib data acc =
     (case spec_convert_each (ParseBool lib) data of
        Inl e \<Rightarrow> Inl e | Inr vs \<Rightarrow> Inr (acc @ vs))"
  by (induction data arbitrary: acc) (simp_all split: sum.splits)

lemma spec_convert_each_all:
  "map p xs = map Inr vs \<Longrightarrow> spec_convert_each p xs = Inr vs"
  by (induction xs arbitrary: vs) auto

lemma spec_convert_each_first:
  "map p ys = map Inr vs \<Longrightarrow> p x = Inl m \<Longrightarrow>
     spec_convert_each p (ys @ x # zs) = Inl (LibError m)"
  by (induction ys arbitrary: vs) auto

text \<open>The equations that run the model on a concrete struct.\<close>

lemmas run_simps =
  Parse.simps doParse.simps doField.simps get_def parseKeyForOption_def Split_def
  getOr_def getRequired_def Tag_Get_def set_field_def handleSlice_def finish_def
  with_val_def Set_field_def demo_lib_def demo_ParseBool_def demo_ParseInt_def
  demo_ParseFloat_def demo_ParseDuration_def parseInts_def parseInt64s_def
  parseFloat32s_def parseFloat64s_def parseBools_def

lemmas ex_simps = ex_A_def ex_Foo_def ex_ExampleFoo_def ex_Inner_def ex_Home_def ex_env_def

subsection \<open>Claim C1\<close>

text \<open>
  C1.  For every argument that is not a pointer, or is a pointer whose pointee is not a
  struct (the nil pointer among them), \<open>Parse\<close> returns \<open>ErrNotAStructPtr\<close> and the
  argument is unchanged: the returned value is the argument itself, so no field of any
  struct inside it has been written.
\<close>

theorem C1_not_a_struct_pointer:
  "\<not> is_struct_ptr v \<Longrightarrow> Parse lib v = (v, Some ErrNotAStructPtr)"
  by (cases v rule: is_struct_ptr.cases) (simp_all add: Parse.simps)

theorem C1_not_a_struct_pointer_witness:
  "\<not> is_struct_ptr (VPtr (Some (VInt 7))) \<and>
   Parse (demo_lib []) (VPtr (Some (VInt 7))) = (VPtr (Some (VInt 7)), Some ErrNotAStructPtr) \<and>
   \<not> is_struct_ptr (VStruct [Field ''Home'' [(''env'', ''HOME'')] True 0 (VString [])]) \<and>
   Parse (demo_lib [(''HOME'', ''/root'')])
         (VStruct [Field ''Home'' [(''env'', ''HOME'')] True 0 (VString [])])
     = (VStruct [Field ''Home'' [(''env'', ''HOME'')] True 0 (VString [])],
        Some ErrNotAStructPtr)"
  using C1_not_a_struct_pointer [of "VPtr (Some (VInt 7))" "demo_lib []"]
        C1_not_a_struct_pointer
          [of "VStruct [Field ''Home'' [(''env'', ''HOME'')] True 0 (VString [])]"
              "demo_lib [(''HOME'', ''/root'')]"]
  by simp

subsection \<open>Claim C2\<close>




subsection \<open>Claim C3\<close>

text \<open>
  C3.  The loop tests for a struct with an empty resolved value before it looks at the
  error of the resolver, and goes on to the next field from there.  So for
  \<^verbatim>\<open>Inner Bar `env:"INNER,required"`\<close> with \<open>INNER\<close> unset the resolver returns the
  empty value and the error "Required environment variable INNER is not set", the
  nested struct is walked, and the error is never recorded: the call succeeds.  For a
  field that is not a struct the same error is recorded.
\<close>

theorem C3_struct_field_resolution_error_dropped:
  "get (demo_lib ex_env) ex_InnerRequired =
     ([], Some (errors_New ''Required environment variable INNER is not set'')) \<and>
   Parse (demo_lib ex_env) (VPtr (Some (VStruct [ex_InnerRequired]))) =
     (VPtr (Some (VStruct [ex_InnerRequired])), None) \<and>
   Parse (demo_lib ex_env) (VPtr (Some (VStruct [ex_A]))) =
     (VPtr (Some (VStruct [ex_A])),
      Some (errors_New ''Required environment variable A is not set''))"
  by (simp add: run_simps ex_InnerRequired_def ex_Bar_def ex_A_def ex_env_def)

text \<open>
  What the loop does with an error of the resolver elsewhere: on a settable field that
  is neither a pointer nor a struct it appends the message, leaves the field as it was
  and goes on; on a struct it does so when the resolved value is not empty.
\<close>

theorem resolution_error_recorded:
  assumes "get lib f = (value, Some e)"
  shows "(CanSet f \<and> Kind (fval f) \<noteq> Ptr \<and> Kind (fval f) \<noteq> Struct \<longrightarrow>
            doField lib f errs = (f, Inr (errs @ [Error e]))) \<and>
         (Kind (fval f) = Struct \<and> value \<noteq> [] \<longrightarrow>
            doField lib f errs = (f, Inr (errs @ [Error e])))"
  using assms
  by (auto simp: doField_leaf doField.simps [of lib f errs])

theorem resolution_error_recorded_witness:
  "get (demo_lib ex_env) ex_A =
     ([], Some (errors_New ''Required environment variable A is not set'')) \<and>
   CanSet ex_A \<and> Kind (fval ex_A) \<noteq> Ptr \<and> Kind (fval ex_A) \<noteq> Struct \<and>
   doField (demo_lib ex_env) ex_A [''earlier''] =
     (ex_A, Inr [''earlier'', ''Required environment variable A is not set''])"
proof -
  have g: "get (demo_lib ex_env) ex_A =
     ([], Some (errors_New ''Required environment variable A is not set''))"
    by (simp add: run_simps ex_simps)
  have k: "CanSet ex_A \<and> Kind (fval ex_A) \<noteq> Ptr \<and> Kind (fval ex_A) \<noteq> Struct"
    by (simp add: ex_simps)
  from resolution_error_recorded [OF g, of "[''earlier'']"] g k show ?thesis by simp
qed

subsection \<open>Claim C4\<close>

text \<open>
  C4.  Let the loop of \<open>doParse\<close> reach a field (the fields \<open>pre\<close> before it were walked
  without a return, leaving the messages \<open>errs\<close>).
  If the field is a settable non-nil pointer to a struct, \<open>Parse\<close> is called on the
  pointer and nothing else is done with the field, its tags are never looked at.  When
  that call returns an error, \<open>doParse\<close> returns this very error at once: the messages
  collected so far are dropped and the later fields \<open>post\<close> are as they were.  When it
  returns no error the loop goes on with the messages unchanged.
  If the field holds a struct by value and its resolved source value is empty,
  \<open>doParse\<close> runs on the nested struct, and whatever result \<open>r\<close> it returns is dropped:
  the loop goes on with the next field and the same messages.
\<close>

theorem C4_pointer_recursion_fatal_value_recursion_swallowed:
  assumes reach: "fields_loop lib pre [] = (pre', Inr errs)"
  shows "(is_struct_ptr (fval f) \<and> CanSet f \<and> Parse lib (fval f) = (v', Some e) \<longrightarrow>
            doParse lib (pre @ f # post) = (pre' @ with_val f v' # post, Some e)) \<and>
         (is_struct_ptr (fval f) \<and> CanSet f \<and> Parse lib (fval f) = (v', None) \<longrightarrow>
            fields_loop lib (pre @ f # post) [] =
              (pre' @ with_val f v' # fst (fields_loop lib post errs),
               snd (fields_loop lib post errs))) \<and>
         (fval g = VStruct inner \<and> fst (get lib g) = [] \<and> doParse lib inner = (inner', r) \<longrightarrow>
            fields_loop lib (pre @ g # post) [] =
              (pre' @ with_val g (VStruct inner') # fst (fields_loop lib post errs),
               snd (fields_loop lib post errs)))"
proof -
  have ptr: "Kind (fval f) = Ptr \<and> \<not> IsNil (fval f)" if "is_struct_ptr (fval f)"
    using that by (cases "fval f" rule: is_struct_ptr.cases) simp_all
  have a: "is_struct_ptr (fval f) \<and> CanSet f \<and> Parse lib (fval f) = (v', Some e) \<longrightarrow>
           doParse lib (pre @ f # post) = (pre' @ with_val f v' # post, Some e)"
    using ptr by (auto simp: doParse.simps fields_loop_at [OF reach] doField_ptr finish_def)
  have b: "is_struct_ptr (fval f) \<and> CanSet f \<and> Parse lib (fval f) = (v', None) \<longrightarrow>
           fields_loop lib (pre @ f # post) [] =
             (pre' @ with_val f v' # fst (fields_loop lib post errs),
              snd (fields_loop lib post errs))"
    using ptr by (auto simp: fields_loop_at [OF reach] doField_ptr split: prod.splits)
  have c: "fval g = VStruct inner \<and> fst (get lib g) = [] \<and> doParse lib inner = (inner', r) \<longrightarrow>
           fields_loop lib (pre @ g # post) [] =
             (pre' @ with_val g (VStruct inner') # fst (fields_loop lib post errs),
              snd (fields_loop lib post errs))"
    by (auto simp: fields_loop_at [OF reach] doField_struct_empty split: prod.splits)
  from a b c show ?thesis by blast
qed

theorem C4_pointer_recursion_fatal_value_recursion_swallowed_witness:
  "fields_loop (demo_lib ex_env) [ex_A] [] =
     ([ex_A], Inr [''Required environment variable A is not set'']) \<and>
   is_struct_ptr (fval ex_ExampleFoo) \<and> CanSet ex_ExampleFoo \<and>
   Parse (demo_lib ex_env) (fval ex_ExampleFoo) =
     (fval ex_ExampleFoo,
      Some (errors_New ''Required environment variable EXAMPLE_FOO is not set'')) \<and>
   doParse (demo_lib ex_env) [ex_A, ex_ExampleFoo, ex_Home] =
     ([ex_A, ex_ExampleFoo, ex_Home],
      Some (errors_New ''Required environment variable EXAMPLE_FOO is not set'')) \<and>
   Parse (demo_lib ((''EXAMPLE_FOO'', ''x'') # ex_env)) (fval ex_ExampleFoo) =
     (VPtr (Some (VStruct [Set_field (hd ex_Foo) (VString ''x'')])), None) \<and>
   fields_loop (demo_lib ((''EXAMPLE_FOO'', ''x'') # ex_env)) [ex_A, ex_ExampleFoo, ex_Home] [] =
     ([ex_A,
       with_val ex_ExampleFoo (VPtr (Some (VStruct [Set_field (hd ex_Foo) (VString ''x'')]))),
       Set_field ex_Home (VString ''/root'')],
      Inr [''Required environment variable A is not set'']) \<and>
   fval ex_Inner = VStruct ex_Foo \<and> fst (get (demo_lib ex_env) ex_Inner) = [] \<and>
   doParse (demo_lib ex_env) ex_Foo =
     (ex_Foo, Some (errors_New ''Required environment variable EXAMPLE_FOO is not set'')) \<and>
   fields_loop (demo_lib ex_env) [ex_A, ex_Inner, ex_Home] [] =
     ([ex_A, ex_Inner, Set_field ex_Home (VString ''/root'')],
      Inr [''Required environment variable A is not set''])"
proof -
  let ?lib = "demo_lib ex_env"
  let ?lib2 = "demo_lib ((''EXAMPLE_FOO'', ''x'') # ex_env)"
  let ?msg = "''Required environment variable A is not set''"
  let ?eFoo = "errors_New ''Required environment variable EXAMPLE_FOO is not set''"
  let ?v2 = "VPtr (Some (VStruct [Set_field (hd ex_Foo) (VString ''x'')]))"
  have r1: "fields_loop ?lib [ex_A] [] = ([ex_A], Inr [?msg])"
    by (simp add: run_simps ex_simps)
  have r2: "fields_loop ?lib2 [ex_A] [] = ([ex_A], Inr [?msg])"
    by (simp add: run_simps ex_simps)
  have p: "is_struct_ptr (fval ex_ExampleFoo) \<and> CanSet ex_ExampleFoo"
    by (simp add: ex_simps)
  have p1: "Parse ?lib (fval ex_ExampleFoo) = (fval ex_ExampleFoo, Some ?eFoo)"
    by (simp add: run_simps ex_simps)
  have p2: "Parse ?lib2 (fval ex_ExampleFoo) = (?v2, None)"
    by (simp add: run_simps ex_simps)
  have s: "fval ex_Inner = VStruct ex_Foo \<and> fst (get ?lib ex_Inner) = []"
    by (simp add: run_simps ex_simps)
  have d: "doParse ?lib ex_Foo = (ex_Foo, Some ?eFoo)"
    by (simp add: run_simps ex_simps)
  have post1: "fields_loop ?lib [ex_Home] [?msg] =
                 ([Set_field ex_Home (VString ''/root'')], Inr [?msg])"
    by (simp add: run_simps ex_simps)
  have post2: "fields_loop ?lib2 [ex_Home] [?msg] =
                 ([Set_field ex_Home (VString ''/root'')], Inr [?msg])"
    by (simp add: run_simps ex_simps)
  have w: "with_val ex_ExampleFoo (fval ex_ExampleFoo) = ex_ExampleFoo"
          "with_val ex_Inner (VStruct ex_Foo) = ex_Inner"
    by (simp_all add: with_val_def ex_simps)
  note t1 = C4_pointer_recursion_fatal_value_recursion_swallowed
    [OF r1, of ex_ExampleFoo "fval ex_ExampleFoo" ?eFoo "[ex_Home]" ex_Inner ex_Foo ex_Foo
       "Some ?eFoo"]
  note t2 = C4_pointer_recursion_fatal_value_recursion_swallowed
    [OF r2, of ex_ExampleFoo ?v2 ?eFoo "[ex_Home]" ex_Inner ex_Foo ex_Foo "Some ?eFoo"]
  from t1 p p1 w
  have c1: "doParse ?lib [ex_A, ex_ExampleFoo, ex_Home] =
              ([ex_A, ex_ExampleFoo, ex_Home], Some ?eFoo)"
    by simp
  from t2 p p2 post2
  have c2: "fields_loop ?lib2 [ex_A, ex_ExampleFoo, ex_Home] [] =
     ([ex_A, with_val ex_ExampleFoo ?v2, Set_field ex_Home (VString ''/root'')], Inr [?msg])"
    by simp
  from t1 s d post1 w
  have c3: "fields_loop ?lib [ex_A, ex_Inner, ex_Home] [] =
     ([ex_A, ex_Inner, Set_field ex_Home (VString ''/root'')], Inr [?msg])"
    by simp
  from r1 p p1 c1 p2 c2 s d c3 show ?thesis by blast
qed

subsection \<open>Claim C5\<close>




subsection \<open>Claim C6\<close>

text \<open>
  C6, as stated for every call, fails when a pointer field makes the call return early:
  in \<^verbatim>\<open>struct { A string `env:"A,required"`; Count *int }\<close> with \<open>A\<close> unset and \<open>Count\<close>
  pointing to an \<open>int\<close>, the error list holds the message of \<open>A\<close> when the loop comes to
  \<open>Count\<close>, and the call returns \<open>ErrNotAStructPtr\<close>, whose message is not the joined
  list.
\<close>

theorem C6_early_return_counterexample:
  "fields_loop (demo_lib ex_env) [ex_A] [] =
     ([ex_A], Inr [''Required environment variable A is not set'']) \<and>
   Parse (demo_lib ex_env) (VPtr (Some (VStruct [ex_A, ex_Count]))) =
     (VPtr (Some (VStruct [ex_A, ex_Count])), Some ErrNotAStructPtr) \<and>
   Error ErrNotAStructPtr \<noteq> Join [''Required environment variable A is not set''] ''. ''"
  by (simp add: run_simps ex_simps ex_Count_def)

text \<open>
  C6, amended.  For every call whose loop runs through all fields (no pointer field
  makes it return early): the error list is the messages of the fields, one field after
  the other in the order of declaration; when it is empty the call succeeds, otherwise
  it fails with the one error made by \<open>errors.New\<close> from the messages joined by
  \<open>". "\<close>.
\<close>

theorem C6_composite_error:
  assumes "fields_loop lib fs [] = (fs', Inr errs)"
  shows "errs = concat (map (field_messages lib) fs) \<and>
         Parse lib (VPtr (Some (VStruct fs))) =
           (VPtr (Some (VStruct fs')),
            if errs = [] then None else Some (errors_New (Join errs ''. '')))"
  using fields_loop_Inr_messages [OF assms] doParse_Inr [OF assms]
  by (simp add: Parse_struct_ptr)

theorem C6_composite_error_witness:
  "fields_loop (demo_lib ex_env) [ex_A, ex_Debug, ex_Home] [] =
     ([ex_A, ex_Debug, Set_field ex_Home (VString ''/root'')],
      Inr [''Required environment variable A is not set'',
           ''strconv.ParseBool: parsing maybe: invalid syntax'']) \<and>
   field_messages (demo_lib ex_env) ex_A = [''Required environment variable A is not set''] \<and>
   field_messages (demo_lib ex_env) ex_Debug =
     [''strconv.ParseBool: parsing maybe: invalid syntax''] \<and>
   field_messages (demo_lib ex_env) ex_Home = [] \<and>
   Parse (demo_lib ex_env) (VPtr (Some (VStruct [ex_A, ex_Debug, ex_Home]))) =
     (VPtr (Some (VStruct [ex_A, ex_Debug, Set_field ex_Home (VString ''/root'')])),
      Some (errors_New
        ''Required environment variable A is not set. strconv.ParseBool: parsing maybe: invalid syntax''))"
proof -
  have r: "fields_loop (demo_lib ex_env) [ex_A, ex_Debug, ex_Home] [] =
     ([ex_A, ex_Debug, Set_field ex_Home (VString ''/root'')],
      Inr [''Required environment variable A is not set'',
           ''strconv.ParseBool: parsing maybe: invalid syntax''])"
    by (simp add: run_simps ex_simps ex_Debug_def)
  have m: "field_messages (demo_lib ex_env) ex_A =
             [''Required environment variable A is not set'']"
          "field_messages (demo_lib ex_env) ex_Debug =
             [''strconv.ParseBool: parsing maybe: invalid syntax'']"
          "field_messages (demo_lib ex_env) ex_Home = []"
    by (simp_all add: field_messages_def run_simps ex_simps ex_Debug_def)
  from C6_composite_error [OF r] r m show ?thesis by simp
qed

subsection \<open>Claim C7\<close>

text \<open>
  C7, as stated for every sequence field, fails for a slice whose type is not one of the
  six \<open>handleSlice\<close> compares with: for \<^verbatim>\<open>Ids []uint `env:"IDS"`\<close> and the value
  \<open>"1,2"\<close> nothing is converted, although \<open>ParseUint\<close> accepts both pieces; \<open>set\<close> returns
  \<open>ErrUnsupportedSliceType\<close> and the call fails.
\<close>

theorem C7_other_slice_type_counterexample:
  "fval ex_Ids = VSlice sliceOfOther \<and>
   ParseUint (demo_lib [(''IDS'', ''1,2'')]) ''1'' 10 32 = Inr 1 \<and>
   ParseUint (demo_lib [(''IDS'', ''1,2'')]) ''2'' 10 32 = Inr 2 \<and>
   set_field (demo_lib [(''IDS'', ''1,2'')]) ex_Ids ''1,2'' = Inl ErrUnsupportedSliceType \<and>
   Parse (demo_lib [(''IDS'', ''1,2'')]) (VPtr (Some (VStruct [ex_Ids]))) =
     (VPtr (Some (VStruct [ex_Ids])), Some (errors_New ''Unsupported slice type''))"
  by (simp add: run_simps ex_Ids_def)

text \<open>
  C7, amended.  For a field of type \<open>[]string\<close>, \<open>[]int\<close>, \<open>[]int64\<close>, \<open>[]float32\<close>,
  \<open>[]float64\<close> or \<open>[]bool\<close> the source value is split at the separator of the tag
  \<open>envSeparator\<close>, at commas when the tag has none.  A \<open>[]string\<close> field is set to the
  pieces.  For the other five every piece is converted by the parser call that \<open>set\<close>
  makes for a scalar field of the element type (\<open>ParseInt\<close> with bit size 32 for \<open>int\<close>
  and 64 for \<open>int64\<close>, \<open>ParseFloat\<close> with 32 and 64, \<open>ParseBool\<close>); when all pieces convert
  the field is set to the values in order, and at the first piece that fails the field
  fails with the error of that piece and is not written.  A field of any other slice
  type fails with \<open>ErrUnsupportedSliceType\<close>.  The value \<open>"a:b:c"\<close> with the separator
  \<open>":"\<close> sets a \<open>[]string\<close> field to \<open>["a", "b", "c"]\<close>.
\<close>

theorem C7_sequence_fields:
  assumes "fval f = VSlice ty"
    and "pieces = Split value (if Tag_Get (Tag f) ''envSeparator'' = [] then '',''
                               else Tag_Get (Tag f) ''envSeparator'')"
  shows "set_field lib f value =
     (case ty of
        sliceOfStrings _ \<Rightarrow> Inr (Set_field f (VSlice (sliceOfStrings pieces)))
      | sliceOfInts _ \<Rightarrow>
          map_sum id (\<lambda>vs. Set_field f (VSlice (sliceOfInts vs)))
            (spec_convert_each (\<lambda>v. ParseInt lib v 10 32) pieces)
      | sliceOfInt64s _ \<Rightarrow>
          map_sum id (\<lambda>vs. Set_field f (VSlice (sliceOfInt64s vs)))
            (spec_convert_each (\<lambda>v. ParseInt lib v 10 64) pieces)
      | sliceOfFloat32s _ \<Rightarrow>
          map_sum id (\<lambda>vs. Set_field f (VSlice (sliceOfFloat32s vs)))
            (spec_convert_each (\<lambda>v. ParseFloat lib v 32) pieces)
      | sliceOfFloat64s _ \<Rightarrow>
          map_sum id (\<lambda>vs. Set_field f (VSlice (sliceOfFloat64s vs)))
            (spec_convert_each (\<lambda>v. ParseFloat lib v 64) pieces)
      | sliceOfBools _ \<Rightarrow>
          map_sum id (\<lambda>vs. Set_field f (VSlice (sliceOfBools vs)))
            (spec_convert_each (ParseBool lib) pieces)
      | sliceOfOther \<Rightarrow> Inl ErrUnsupportedSliceType) \<and>
    (map p xs = map Inr vs \<longrightarrow> spec_convert_each p xs = Inr vs) \<and>
    (map p ys = map Inr vs \<and> p x = Inl m \<longrightarrow>
       spec_convert_each p (ys @ x # zs) = Inl (LibError m)) \<and>
    (fval g = VInt n \<longrightarrow>
       set_field lib g s = map_sum LibError (\<lambda>v. Set_field g (VInt v)) (ParseInt lib s 10 32)) \<and>
    (fval g = VInt64 tn n \<and> tn \<noteq> ''time.Duration'' \<longrightarrow>
       set_field lib g s =
         map_sum LibError (\<lambda>v. Set_field g (VInt64 tn v)) (ParseInt lib s 10 64)) \<and>
    (fval g = VFloat32 n \<longrightarrow>
       set_field lib g s = map_sum LibError (\<lambda>v. Set_field g (VFloat32 v)) (ParseFloat lib s 32)) \<and>
    (fval g = VFloat64 n \<longrightarrow>
       set_field lib g s = map_sum LibError (\<lambda>v. Set_field g (VFloat64 v)) (ParseFloat lib s 64)) \<and>
    (fval g = VBool b \<longrightarrow>
       set_field lib g s = map_sum LibError (\<lambda>v. Set_field g (VBool v)) (ParseBool lib s)) \<and>
    (fval g = VString t \<longrightarrow> set_field lib g s = Inr (Set_field g (VString s))) \<and>
    Split ''a:b:c'' '':'' = [''a'', ''b'', ''c'']"
proof -
  have seq: "set_field lib f value =
     (case ty of
        sliceOfStrings _ \<Rightarrow> Inr (Set_field f (VSlice (sliceOfStrings pieces)))
      | sliceOfInts _ \<Rightarrow>
          map_sum id (\<lambda>vs. Set_field f (VSlice (sliceOfInts vs)))
            (spec_convert_each (\<lambda>v. ParseInt lib v 10 32) pieces)
      | sliceOfInt64s _ \<Rightarrow>
          map_sum id (\<lambda>vs. Set_field f (VSlice (sliceOfInt64s vs)))
            (spec_convert_each (\<lambda>v. ParseInt lib v 10 64) pieces)
      | sliceOfFloat32s _ \<Rightarrow>
          map_sum id (\<lambda>vs. Set_field f (VSlice (sliceOfFloat32s vs)))
            (spec_convert_each (\<lambda>v. ParseFloat lib v 32) pieces)
      | sliceOfFloat64s _ \<Rightarrow>
          map_sum id (\<lambda>vs. Set_field f (VSlice (sliceOfFloat64s vs)))
            (spec_convert_each (\<lambda>v. ParseFloat lib v 64) pieces)
      | sliceOfBools _ \<Rightarrow>
          map_sum id (\<lambda>vs. Set_field f (VSlice (sliceOfBools vs)))
            (spec_convert_each (ParseBool lib) pieces)
      | sliceOfOther \<Rightarrow> Inl ErrUnsupportedSliceType)"
    using assms
    by (cases ty)
       (simp_all add: set_field_def handleSlice_def parseInts_def parseInt64s_def
          parseFloat32s_def parseFloat64s_def parseBools_def parseInts_loop_spec
          parseInt64s_loop_spec parseFloat32s_loop_spec parseFloat64s_loop_spec
          parseBools_loop_spec Let_def split: sum.splits)
  have scalars:
    "fval g = VInt n \<longrightarrow>
       set_field lib g s = map_sum LibError (\<lambda>v. Set_field g (VInt v)) (ParseInt lib s 10 32)"
    "fval g = VInt64 tn n \<and> tn \<noteq> ''time.Duration'' \<longrightarrow>
       set_field lib g s =
         map_sum LibError (\<lambda>v. Set_field g (VInt64 tn v)) (ParseInt lib s 10 64)"
    "fval g = VFloat32 n \<longrightarrow>
       set_field lib g s = map_sum LibError (\<lambda>v. Set_field g (VFloat32 v)) (ParseFloat lib s 32)"
    "fval g = VFloat64 n \<longrightarrow>
       set_field lib g s = map_sum LibError (\<lambda>v. Set_field g (VFloat64 v)) (ParseFloat lib s 64)"
    "fval g = VBool b \<longrightarrow>
       set_field lib g s = map_sum LibError (\<lambda>v. Set_field g (VBool v)) (ParseBool lib s)"
    "fval g = VString t \<longrightarrow> set_field lib g s = Inr (Set_field g (VString s))"
    by (simp_all add: set_field_def split: sum.splits)
  have ex: "Split ''a:b:c'' '':'' = [''a'', ''b'', ''c'']"
    by (simp add: Split_def)
  from seq scalars ex spec_convert_each_all [of p xs vs] spec_convert_each_first [of p ys vs x m zs]
  show ?thesis by blast
qed

theorem C7_sequence_fields_witness:
  "fval ex_Hosts = VSlice (sliceOfStrings []) \<and>
   set_field (demo_lib ex_env) ex_Hosts ''a:b:c'' =
     Inr (Set_field ex_Hosts (VSlice (sliceOfStrings [''a'', ''b'', ''c'']))) \<and>
   fval ex_Ports = VSlice (sliceOfInts []) \<and>
   [''1'', ''2''] = Split ''1,2'' '','' \<and>
   map (\<lambda>v. ParseInt (demo_lib ex_env) v 10 32) [''1'', ''2''] = map Inr [1, 2] \<and>
   set_field (demo_lib ex_env) ex_Ports ''1,2'' =
     Inr (Set_field ex_Ports (VSlice (sliceOfInts [1, 2]))) \<and>
   ParseInt (demo_lib ex_env) ''x'' 10 32 = Inl ''strconv.ParseInt: parsing x: invalid syntax'' \<and>
   set_field (demo_lib ex_env) ex_Ports ''1,x,y'' =
     Inl (LibError ''strconv.ParseInt: parsing x: invalid syntax'')"
proof -
  let ?lib = "demo_lib ex_env"
  let ?p = "\<lambda>v. ParseInt ?lib v 10 32"
  have h: "fval ex_Hosts = VSlice (sliceOfStrings [])" by (simp add: ex_Hosts_def)
  have hs: "[''a'', ''b'', ''c''] =
      Split ''a:b:c'' (if Tag_Get (Tag ex_Hosts) ''envSeparator'' = [] then '',''
                        else Tag_Get (Tag ex_Hosts) ''envSeparator'')"
    by (simp add: Split_def Tag_Get_def ex_Hosts_def)
  have q: "fval ex_Ports = VSlice (sliceOfInts [])" by (simp add: ex_Ports_def)
  have qs: "[''1'', ''2''] =
      Split ''1,2'' (if Tag_Get (Tag ex_Ports) ''envSeparator'' = [] then '',''
                     else Tag_Get (Tag ex_Ports) ''envSeparator'')"
    by (simp add: Split_def Tag_Get_def ex_Ports_def)
  have qs': "[''1'', ''x'', ''y''] =
      Split ''1,x,y'' (if Tag_Get (Tag ex_Ports) ''envSeparator'' = [] then '',''
                       else Tag_Get (Tag ex_Ports) ''envSeparator'')"
    by (simp add: Split_def Tag_Get_def ex_Ports_def)
  have s0: "[''1'', ''2''] = Split ''1,2'' '',''" by (simp add: Split_def)
  have m1: "map ?p [''1'', ''2''] = map Inr [1, 2]"
    by (simp add: demo_lib_def demo_ParseInt_def)
  have m2: "map ?p [''1''] = map Inr [1]"
    by (simp add: demo_lib_def demo_ParseInt_def)
  have x: "?p ''x'' = Inl ''strconv.ParseInt: parsing x: invalid syntax''"
    by (simp add: demo_lib_def demo_ParseInt_def)
  note t1 = C7_sequence_fields [OF h hs, where lib = ?lib, THEN conjunct1]
  note t2 = C7_sequence_fields [OF q qs, where lib = ?lib, THEN conjunct1]
  note t2' = C7_sequence_fields
    [OF q qs, where p = ?p and xs = "[''1'', ''2'']" and vs = "[1, 2]",
     THEN conjunct2, THEN conjunct1]
  note t3 = C7_sequence_fields [OF q qs', where lib = ?lib, THEN conjunct1]
  note t3' = C7_sequence_fields
    [OF q qs', where p = ?p and ys = "[''1'']" and vs = "[1]" and x = "''x''"
       and m = "''strconv.ParseInt: parsing x: invalid syntax''" and zs = "[''y'']",
     THEN conjunct2, THEN conjunct2, THEN conjunct1]
  from t1 h have c1: "set_field ?lib ex_Hosts ''a:b:c'' =
     Inr (Set_field ex_Hosts (VSlice (sliceOfStrings [''a'', ''b'', ''c''])))"
    by simp
  from t2' m1 have "spec_convert_each ?p [''1'', ''2''] = Inr [1, 2]" by blast
  with t2 have c2: "set_field ?lib ex_Ports ''1,2'' =
     Inr (Set_field ex_Ports (VSlice (sliceOfInts [1, 2])))"
    by simp
  from t3' m2 x have "spec_convert_each ?p ([''1''] @ ''x'' # [''y'']) =
     Inl (LibError ''strconv.ParseInt: parsing x: invalid syntax'')" by blast
  with t3 have c3: "set_field ?lib ex_Ports ''1,x,y'' =
     Inl (LibError ''strconv.ParseInt: parsing x: invalid syntax'')"
    by simp
  from h c1 q s0 m1 c2 x c3 show ?thesis by blast
qed

subsection \<open>Claim C8\<close>

text \<open>
  C8.  For a field of kind \<open>Int64\<close> whose type prints as \<open>time.Duration\<close>, \<open>set\<close> hands
  the source value to \<open>time.ParseDuration\<close>: the field is set to the duration it
  returns, or the field fails with its error and is not written.  So with
  \<open>ParseDuration\<close> returning 90 minutes for \<open>"1h30m"\<close> the field becomes 90 minutes, and
  with \<open>ParseDuration\<close> refusing \<open>"garbage"\<close> the field fails with that error.  For
  every other type of kind \<open>Int64\<close>, \<open>set\<close> hands the value to \<open>strconv.ParseInt\<close> with
  base 10 and bit size 64.  \<open>ParseDuration\<close> and \<open>ParseInt\<close> are those of the library
  the model is given.
\<close>

theorem C8_duration_or_plain_int64:
  assumes "fval f = VInt64 tn n"
  shows "(tn = ''time.Duration'' \<longrightarrow>
            set_field lib f value =
              (case ParseDuration lib value of
                 Inl m \<Rightarrow> Inl (LibError m)
               | Inr dValue \<Rightarrow> Inr (Set_field f (VInt64 tn dValue)))) \<and>
         (tn \<noteq> ''time.Duration'' \<longrightarrow>
            set_field lib f value =
              (case ParseInt lib value 10 64 of
                 Inl m \<Rightarrow> Inl (LibError m)
               | Inr intValue \<Rightarrow> Inr (Set_field f (VInt64 tn intValue)))) \<and>
         (tn = ''time.Duration'' \<and> ParseDuration lib ''1h30m'' = Inr (90 * Minute) \<longrightarrow>
            set_field lib f ''1h30m'' = Inr (Set_field f (VInt64 tn (90 * Minute)))) \<and>
         (tn = ''time.Duration'' \<and> ParseDuration lib ''garbage'' = Inl m \<longrightarrow>
            set_field lib f ''garbage'' = Inl (LibError m))"
  using assms by (auto simp: set_field_def split: sum.splits)

theorem C8_duration_or_plain_int64_witness:
  "fval ex_Duration = VInt64 ''time.Duration'' 0 \<and>
   ParseDuration (demo_lib [(''DURATION'', ''1h30m'')]) ''1h30m'' = Inr (90 * Minute) \<and>
   set_field (demo_lib [(''DURATION'', ''1h30m'')]) ex_Duration ''1h30m'' =
     Inr (Field ''Duration'' [(''env'', ''DURATION'')] True 1
            (VInt64 ''time.Duration'' 5400000000000)) \<and>
   Parse (demo_lib [(''DURATION'', ''1h30m'')]) (VPtr (Some (VStruct [ex_Duration]))) =
     (VPtr (Some (VStruct [Field ''Duration'' [(''env'', ''DURATION'')] True 1
                             (VInt64 ''time.Duration'' 5400000000000)])), None) \<and>
   ParseDuration (demo_lib [(''DURATION'', ''garbage'')]) ''garbage'' =
     Inl ''time: invalid duration garbage'' \<and>
   set_field (demo_lib [(''DURATION'', ''garbage'')]) ex_Duration ''garbage'' =
     Inl (LibError ''time: invalid duration garbage'') \<and>
   Parse (demo_lib [(''DURATION'', ''garbage'')]) (VPtr (Some (VStruct [ex_Duration]))) =
     (VPtr (Some (VStruct [ex_Duration])),
      Some (errors_New ''time: invalid duration garbage'')) \<and>
   fval (Field ''Timeout'' [(''env'', ''TIMEOUT'')] True 0 (VInt64 ''int64'' 0)) =
     VInt64 ''int64'' 0 \<and>
   ''int64'' \<noteq> ''time.Duration'' \<and>
   set_field (demo_lib [(''TIMEOUT'', ''3000'')])
       (Field ''Timeout'' [(''env'', ''TIMEOUT'')] True 0 (VInt64 ''int64'' 0)) ''3000'' =
     Inr (Field ''Timeout'' [(''env'', ''TIMEOUT'')] True 1 (VInt64 ''int64'' 3000))"
proof -
  let ?l1 = "demo_lib [(''DURATION'', ''1h30m'')]"
  let ?l2 = "demo_lib [(''DURATION'', ''garbage'')]"
  let ?l3 = "demo_lib [(''TIMEOUT'', ''3000'')]"
  let ?t = "Field ''Timeout'' [(''env'', ''TIMEOUT'')] True 0 (VInt64 ''int64'' 0)"
  have d: "fval ex_Duration = VInt64 ''time.Duration'' 0" by (simp add: ex_Duration_def)
  have t: "fval ?t = VInt64 ''int64'' 0" by simp
  have ne: "''int64'' \<noteq> ''time.Duration''" by simp
  have p1: "ParseDuration ?l1 ''1h30m'' = Inr (90 * Minute)"
    by (simp add: demo_lib_def demo_ParseDuration_def)
  have p2: "ParseDuration ?l2 ''garbage'' = Inl ''time: invalid duration garbage''"
    by (simp add: demo_lib_def demo_ParseDuration_def)
  have p3: "ParseInt ?l3 ''3000'' 10 64 = Inr 3000"
    by (simp add: demo_lib_def demo_ParseInt_def)
  have mins: "90 * Minute = (5400000000000 :: int64)" by (simp add: Minute_def)
  from C8_duration_or_plain_int64 [OF d, of ?l1 "''1h30m''"] p1 mins
  have c1: "set_field ?l1 ex_Duration ''1h30m'' =
     Inr (Field ''Duration'' [(''env'', ''DURATION'')] True 1
            (VInt64 ''time.Duration'' 5400000000000))"
    by (simp add: Set_field_def ex_Duration_def)
  from C8_duration_or_plain_int64
         [OF d, of ?l2 "''garbage''" "''time: invalid duration garbage''"] p2
  have c2: "set_field ?l2 ex_Duration ''garbage'' =
     Inl (LibError ''time: invalid duration garbage'')"
    by simp
  from C8_duration_or_plain_int64 [OF t, of ?l3 "''3000''"] ne p3
  have c3: "set_field ?l3 ?t ''3000'' =
     Inr (Field ''Timeout'' [(''env'', ''TIMEOUT'')] True 1 (VInt64 ''int64'' 3000))"
    by (simp add: Set_field_def)
  have r1: "Parse ?l1 (VPtr (Some (VStruct [ex_Duration]))) =
     (VPtr (Some (VStruct [Field ''Duration'' [(''env'', ''DURATION'')] True 1
                             (VInt64 ''time.Duration'' 5400000000000)])), None)"
    by (simp add: run_simps ex_Duration_def Minute_def)
  have r2: "Parse ?l2 (VPtr (Some (VStruct [ex_Duration]))) =
     (VPtr (Some (VStruct [ex_Duration])),
      Some (errors_New ''time: invalid duration garbage''))"
    by (simp add: run_simps ex_Duration_def)
  from d p1 c1 r1 p2 c2 r2 t ne c3 show ?thesis by blast
qed

subsection \<open>Claim C9\<close>

text \<open>
  C9, as stated, fails: not every token overwrites both results, so more than the last
  option can show in the pair.  With \<open>PORT\<close> unset and the default \<open>"3000"\<close>, the options
  \<open>required,bogus\<close> give the empty value (left by \<open>required\<close>) with the error of \<open>bogus\<close>,
  while the last option \<open>bogus\<close> alone gives the value \<open>"3000"\<close> with that error.
\<close>

theorem C9_last_option_only_counterexample:
  "parseKeyForOption (Tag_Get (Tag ex_PortRequiredBogus) ''env'') =
     (''PORT'', [''required'', ''bogus'']) \<and>
   parseKeyForOption (Tag_Get (Tag ex_PortBogus) ''env'') = (''PORT'', [''bogus'']) \<and>
   get (demo_lib ex_env) ex_PortRequiredBogus =
     ([], Some (errors_New ''Env tag option bogus not supported.'')) \<and>
   get (demo_lib ex_env) ex_PortBogus =
     (''3000'', Some (errors_New ''Env tag option bogus not supported.''))"
  by (simp add: run_simps ex_PortRequiredBogus_def ex_PortBogus_def ex_env_def)

text \<open>
  C9, amended.  The tag is split at commas into the key and the option tokens, and the
  resolver goes through the tokens in order, starting from the value of the variable or
  else the default, and no error.  An empty token changes nothing.  \<open>required\<close>
  overwrites both the value and the error with the results of \<open>getRequired\<close>, so after
  a last token \<open>required\<close> only its effect is left.  Any other token overwrites the
  error alone, with the error "Env tag option ... not supported.", and keeps the value.
  Hence the returned error is that of the last non-empty token, and the returned value
  is that of \<open>getRequired\<close> when some token is \<open>required\<close> and the value of the variable
  or else the default otherwise.
\<close>

theorem C9_options_in_order:
  assumes "parseKeyForOption (Tag_Get (Tag f) ''env'') = (key, opts)"
  shows "key # opts = Split (Tag_Get (Tag f) ''env'') '','' \<and>
         get lib f =
           get_opts lib key opts (getOr lib key (Tag_Get (Tag f) ''envDefault''), None) \<and>
         get_opts lib key (os @ [[]]) r = get_opts lib key os r \<and>
         get_opts lib key (os @ [''required'']) r = getRequired lib key \<and>
         (opt \<noteq> [] \<and> opt \<noteq> ''required'' \<longrightarrow>
            get_opts lib key (os @ [opt]) r =
              (fst (get_opts lib key os r),
               Some (errors_New (''Env tag option '' @ opt @ '' not supported.'')))) \<and>
         get lib f =
           (if ''required'' \<in> set opts then fst (getRequired lib key)
            else getOr lib key (Tag_Get (Tag f) ''envDefault''),
            if filter (\<lambda>opt. opt \<noteq> []) opts = [] then None
            else if last (filter (\<lambda>opt. opt \<noteq> []) opts) = ''required''
              then snd (getRequired lib key)
            else Some (errors_New (''Env tag option '' @ last (filter (\<lambda>opt. opt \<noteq> []) opts)
                                    @ '' not supported.'')))"
proof -
  obtain v e where s: "get_opts lib key os r = (v, e)" by (cases "get_opts lib key os r")
  have split: "key # opts = Split (Tag_Get (Tag f) ''env'') '',''"
    using assms Split_not_Nil [of "'',''" "Tag_Get (Tag f) ''env''"]
    by (auto simp: parseKeyForOption_def split: list.splits)
  have start: "get lib f =
           get_opts lib key opts (getOr lib key (Tag_Get (Tag f) ''envDefault''), None)"
    using assms by (simp add: get_def)
  have empty: "get_opts lib key (os @ [[]]) r = get_opts lib key os r"
    by (simp add: get_opts_append s)
  have req: "get_opts lib key (os @ [''required'']) r = getRequired lib key"
    by (simp add: get_opts_append s)
  have other: "opt \<noteq> [] \<and> opt \<noteq> ''required'' \<longrightarrow>
            get_opts lib key (os @ [opt]) r =
              (fst (get_opts lib key os r),
               Some (errors_New (''Env tag option '' @ opt @ '' not supported.'')))"
    by (simp add: get_opts_append s)
  from split start empty req other get_closed [OF assms, of lib] show ?thesis by blast
qed

theorem C9_options_in_order_witness:
  "parseKeyForOption (Tag_Get (Tag ex_PortRequiredBogus) ''env'') =
     (''PORT'', [''required'', ''bogus'']) \<and>
   ''PORT'' # [''required'', ''bogus''] = Split ''PORT,required,bogus'' '','' \<and>
   ''bogus'' \<noteq> [] \<and> ''bogus'' \<noteq> ''required'' \<and>
   get_opts (demo_lib ex_env) ''PORT'' ([''required''] @ [''bogus'']) (''3000'', None) =
     (fst (get_opts (demo_lib ex_env) ''PORT'' [''required''] (''3000'', None)),
      Some (errors_New ''Env tag option bogus not supported.'')) \<and>
   get (demo_lib ex_env) ex_PortRequiredBogus =
     ([], Some (errors_New ''Env tag option bogus not supported.''))"
proof -
  have p: "parseKeyForOption (Tag_Get (Tag ex_PortRequiredBogus) ''env'') =
             (''PORT'', [''required'', ''bogus''])"
    by (simp add: run_simps ex_PortRequiredBogus_def)
  have t: "Tag_Get (Tag ex_PortRequiredBogus) ''env'' = ''PORT,required,bogus''"
    by (simp add: Tag_Get_def ex_PortRequiredBogus_def)
  have o: "''bogus'' \<noteq> [] \<and> ''bogus'' \<noteq> ''required''" by simp
  have g: "fst (getRequired (demo_lib ex_env) ''PORT'') = []"
    by (simp add: run_simps ex_env_def)
  note th = C9_options_in_order
    [OF p, of "demo_lib ex_env" "[''required'']" "(''3000'', None)" "''bogus''"]
  from th t have c1: "''PORT'' # [''required'', ''bogus''] = Split ''PORT,required,bogus'' '',''"
    by simp
  from th o have c2:
    "get_opts (demo_lib ex_env) ''PORT'' ([''required''] @ [''bogus'']) (''3000'', None) =
     (fst (get_opts (demo_lib ex_env) ''PORT'' [''required''] (''3000'', None)),
      Some (errors_New ''Env tag option bogus not supported.''))"
    by simp
  from th g have c3: "get (demo_lib ex_env) ex_PortRequiredBogus =
     ([], Some (errors_New ''Env tag option bogus not supported.''))"
    by simp
  from p c1 o c2 c3 show ?thesis by blast
qed

subsection \<open>Claim C10\<close>

text \<open>
  C10, as stated, fails for a nil pointer field that carries a tag: for
  \<^verbatim>\<open>Limit *int `env:"LIMIT"`\<close> with \<open>LIMIT=5\<close> the field stays nil, but \<open>set\<close> answers
  \<open>ErrUnsupportedType\<close> and the call fails.
\<close>

theorem C10_nil_pointer_counterexample:
  "IsNil (fval ex_Limit) \<and>
   Parse (demo_lib [(''LIMIT'', ''5'')]) (VPtr (Some (VStruct [ex_Limit]))) =
     (VPtr (Some (VStruct [ex_Limit])), Some (errors_New ''Type is not supported''))"
  by (simp add: run_simps ex_Limit_def)

text \<open>
  C10, amended.  Let \<open>f\<close> be a settable, non-nil pointer field whose pointee is not a
  struct.  A call on a struct with this field always fails, and leaves \<open>f\<close> and every
  later field as they were.  When the loop reaches \<open>f\<close> (no pointer field before it has
  made the call return), the call returns \<open>ErrNotAStructPtr\<close> itself and the messages
  collected so far are dropped.
  A nil pointer field \<open>g\<close> is never written and stays nil.  Its turn adds no message
  when the field is not settable, or when its resolved source value is empty and the
  resolution gave no error; otherwise it adds one message: the resolution error, or that
  of \<open>ErrUnsupportedType\<close> for a non-empty value.
\<close>

theorem C10_pointer_to_non_struct_fatal:
  assumes "Kind (fval f) = Ptr" and "\<not> IsNil (fval f)" and "CanSet f"
    and "\<not> is_struct_ptr (fval f)"
  shows "snd (Parse lib (VPtr (Some (VStruct (pre @ f # post))))) \<noteq> None \<and>
         (\<exists>pre'. fst (Parse lib (VPtr (Some (VStruct (pre @ f # post))))) =
                   VPtr (Some (VStruct (pre' @ f # post))) \<and> length pre' = length pre) \<and>
         (fields_loop lib pre [] = (pre', Inr errs) \<longrightarrow>
            Parse lib (VPtr (Some (VStruct (pre @ f # post)))) =
              (VPtr (Some (VStruct (pre' @ f # post))), Some ErrNotAStructPtr)) \<and>
         (IsNil (fval g) \<longrightarrow>
            doField lib g errs =
              (g, Inr (errs @
                 (if \<not> CanSet g then []
                  else (case get lib g of
                          (value, Some e) \<Rightarrow> [Error e]
                        | (value, None) \<Rightarrow>
                            (if value = [] then [] else [Error ErrUnsupportedType]))))))"
proof -
  have turn: "doField lib f es = (f, Inl ErrNotAStructPtr)" for es
    using assms by (simp add: doField_ptr Parse_not_struct_ptr with_val_same)
  have reached: "doParse lib (pre @ f # post) = (p' @ f # post, Some ErrNotAStructPtr)"
    if "fields_loop lib pre [] = (p', Inr es)" for p' es
    by (simp add: doParse.simps fields_loop_at [OF that] turn finish_def)
  have c: "fields_loop lib pre [] = (pre', Inr errs) \<longrightarrow>
            Parse lib (VPtr (Some (VStruct (pre @ f # post)))) =
              (VPtr (Some (VStruct (pre' @ f # post))), Some ErrNotAStructPtr)"
    by (auto simp: Parse_struct_ptr dest: reached)
  obtain p' r where pr: "fields_loop lib pre [] = (p', r)" by (cases "fields_loop lib pre []")
  have len: "length p' = length pre"
    using fields_loop_length [of lib pre "[]"] pr by simp
  have "\<exists>e. doParse lib (pre @ f # post) = (p' @ f # post, Some e)"
  proof (cases r)
    case (Inl e)
    with pr show ?thesis by (simp add: doParse.simps fields_loop_abort finish_def)
  next
    case (Inr es)
    with pr reached show ?thesis by blast
  qed
  then obtain e where d: "doParse lib (pre @ f # post) = (p' @ f # post, Some e)" ..
  from d have a: "snd (Parse lib (VPtr (Some (VStruct (pre @ f # post))))) \<noteq> None"
    by (simp add: Parse_struct_ptr)
  from d len have b: "\<exists>pre'. fst (Parse lib (VPtr (Some (VStruct (pre @ f # post))))) =
                   VPtr (Some (VStruct (pre' @ f # post))) \<and> length pre' = length pre"
    by (simp add: Parse_struct_ptr)
  from a b c show ?thesis by (simp add: doField_nil_ptr)
qed

theorem C10_pointer_to_non_struct_fatal_witness:
  "Kind (fval ex_Count) = Ptr \<and> \<not> IsNil (fval ex_Count) \<and> CanSet ex_Count \<and>
   \<not> is_struct_ptr (fval ex_Count) \<and>
   fields_loop (demo_lib ex_env) [ex_A] [] =
     ([ex_A], Inr [''Required environment variable A is not set'']) \<and>
   Parse (demo_lib ex_env) (VPtr (Some (VStruct [ex_A, ex_Count, ex_Home]))) =
     (VPtr (Some (VStruct [ex_A, ex_Count, ex_Home])), Some ErrNotAStructPtr) \<and>
   IsNil (fval ex_Limit) \<and>
   doField (demo_lib ex_env) ex_Limit [] = (ex_Limit, Inr [])"
proof -
  have h: "Kind (fval ex_Count) = Ptr" "\<not> IsNil (fval ex_Count)" "CanSet ex_Count"
          "\<not> is_struct_ptr (fval ex_Count)"
    by (simp_all add: ex_Count_def)
  have r: "fields_loop (demo_lib ex_env) [ex_A] [] =
             ([ex_A], Inr [''Required environment variable A is not set''])"
    by (simp add: run_simps ex_simps)
  have n: "IsNil (fval ex_Limit)" by (simp add: ex_Limit_def)
  have g: "CanSet ex_Limit \<and> get (demo_lib ex_env) ex_Limit = ([], None)"
    by (simp add: run_simps ex_simps ex_Limit_def)
  note t = C10_pointer_to_non_struct_fatal
    [OF h, of "demo_lib ex_env" "[ex_A]" "[ex_Home]" "[ex_A]"
       "[''Required environment variable A is not set'']" ex_Limit]
  note t' = C10_pointer_to_non_struct_fatal
    [OF h, of "demo_lib ex_env" "[ex_A]" "[ex_Home]" "[ex_A]" "[]" ex_Limit]
  from t r have c1: "Parse (demo_lib ex_env) (VPtr (Some (VStruct [ex_A, ex_Count, ex_Home]))) =
     (VPtr (Some (VStruct [ex_A, ex_Count, ex_Home])), Some ErrNotAStructPtr)"
    by simp
  from t' n g have c2: "doField (demo_lib ex_env) ex_Limit [] = (ex_Limit, Inr [])"
    by simp
  from h r c1 n c2 show ?thesis by blast
qed

subsection \<open>The pointer test after the resolver\<close>

text \<open>
  The loop tests a second time for a pointer to a struct, behind the resolver, to walk
  the pointee with \<open>doParse\<close> and drop its result.  No field comes there: a non-nil
  pointer to a struct that is settable has gone to \<open>Parse\<close> in the first test of the
  turn, and one that is not settable has been skipped.
\<close>

theorem pointer_to_struct_first_test_or_skipped:
  "is_struct_ptr (fval f) \<longrightarrow>
     doField lib f errs =
       (if CanSet f
        then (with_val f (fst (Parse lib (fval f))),
              case snd (Parse lib (fval f)) of Some e \<Rightarrow> Inl e | None \<Rightarrow> Inr errs)
        else (f, Inr errs))"
proof
  assume "is_struct_ptr (fval f)"
  then have k: "Kind (fval f) = Ptr" "\<not> IsNil (fval f)" "Kind (fval f) \<noteq> Struct"
    by (cases "fval f" rule: is_struct_ptr.cases; simp)+
  show "doField lib f errs =
       (if CanSet f
        then (with_val f (fst (Parse lib (fval f))),
              case snd (Parse lib (fval f)) of Some e \<Rightarrow> Inl e | None \<Rightarrow> Inr errs)
        else (f, Inr errs))"
    using k by (simp add: doField_ptr doField_skip)
qed

theorem pointer_to_struct_first_test_or_skipped_witness:
  "is_struct_ptr (fval (Field ''foo'' [] False 0 (VPtr (Some (VStruct ex_Bar))))) \<and>
   doField (demo_lib [(''EXAMPLE_FOO1'', ''x'')])
           (Field ''foo'' [] False 0 (VPtr (Some (VStruct ex_Bar)))) [] =
     (Field ''foo'' [] False 0 (VPtr (Some (VStruct ex_Bar))), Inr [])"
  using pointer_to_struct_first_test_or_skipped
    [of "Field ''foo'' [] False 0 (VPtr (Some (VStruct ex_Bar)))"
        "demo_lib [(''EXAMPLE_FOO1'', ''x'')]" "[]"]
  by simp

end
